theory Spec2Isabelle
  imports Complex_Main
begin

section \<open>Python strings and integers\<close>

text \<open>
  Strings are ASCII character lists. The helpers below are the few operations of Python's
  \<open>str\<close>, \<open>int\<close> and \<open>re\<close> that \<open>movie_recommender.py\<close> uses, restricted to ASCII.
\<close>

definition ascii_upper :: string where
  "ascii_upper = ''ABCDEFGHIJKLMNOPQRSTUVWXYZ''"

definition ascii_lower :: string where
  "ascii_lower = ''abcdefghijklmnopqrstuvwxyz''"

definition ascii_digits :: string where
  "ascii_digits = ''0123456789''"

definition lower_char :: "char \<Rightarrow> char" where
  "lower_char c = (case map_of (zip ascii_upper ascii_lower) c of Some d \<Rightarrow> d | None \<Rightarrow> c)"

definition str_lower :: "string \<Rightarrow> string" where
  \<comment> \<open>\<open>s.lower()\<close>\<close>
  "str_lower s = map lower_char s"

definition is_digit :: "char \<Rightarrow> bool" where
  \<comment> \<open>the regular expression class \<open>\\d\<close>\<close>
  "is_digit c = (c \<in> set ascii_digits)"

definition is_word_char :: "char \<Rightarrow> bool" where
  \<comment> \<open>the regular expression class \<open>\\w\<close>\<close>
  "is_word_char c = (c \<in> set (ascii_upper @ ascii_lower @ ascii_digits @ ''_''))"

definition is_space_char :: "char \<Rightarrow> bool" where
  \<comment> \<open>the regular expression class \<open>\\s\<close>\<close>
  "is_space_char c =
     (c \<in> set [CHR 0x09, CHR 0x0A, CHR 0x0B, CHR 0x0C, CHR 0x0D,
                CHR 0x1C, CHR 0x1D, CHR 0x1E, CHR 0x1F, CHR '' ''])"

definition is_int_space :: "char \<Rightarrow> bool" where
  \<comment> \<open>the characters that \<open>int\<close> skips at both ends of an ASCII string: the separators
      \<open>0x1C\<close> to \<open>0x1F\<close> are not among them\<close>
  "is_int_space c = (c \<in> set [CHR 0x09, CHR 0x0A, CHR 0x0B, CHR 0x0C, CHR 0x0D, CHR '' ''])"

definition digit_val :: "char \<Rightarrow> nat" where
  "digit_val c =
     (case map_of (zip ascii_digits [0, 1, 2, 3, 4, 5, 6, 7, 8, 9]) c of
        Some d \<Rightarrow> d | None \<Rightarrow> 0)"

fun int_body :: "string \<Rightarrow> bool" where
  \<comment> \<open>decimal digits, single underscores allowed between two digits\<close>
  "int_body [] = False"
| "int_body [c] = is_digit c"
| "int_body (c # d # cs) =
     (is_digit c \<and> (if d = CHR ''_'' then int_body cs else int_body (d # cs)))"

definition int_strip :: "string \<Rightarrow> string" where
  "int_strip s = rev (dropWhile is_int_space (rev (dropWhile is_int_space s)))"

definition digits_value :: "string \<Rightarrow> nat" where
  "digits_value s = foldl (\<lambda>acc c. 10 * acc + digit_val c) 0 (filter is_digit s)"

definition py_int :: "string \<Rightarrow> int option" where
  \<comment> \<open>\<open>int(s)\<close>: \<open>None\<close> stands for the \<open>ValueError\<close>\<close>
  "py_int s =
     (case int_strip s of
        [] \<Rightarrow> None
      | c # cs \<Rightarrow>
          if c = CHR ''-'' then (if int_body cs then Some (- int (digits_value cs)) else None)
          else if c = CHR ''+'' then (if int_body cs then Some (int (digits_value cs)) else None)
          else if int_body (c # cs) then Some (int (digits_value (c # cs))) else None)"

function nat_digits :: "nat \<Rightarrow> string" where
  "nat_digits k =
     (if k < 10 then [ascii_digits ! k] else nat_digits (k div 10) @ [ascii_digits ! (k mod 10)])"
  by pat_completeness auto
termination
  by (relation "measure (\<lambda>k. k)") auto

definition py_str :: "int \<Rightarrow> string" where
  \<comment> \<open>\<open>str(i)\<close> of an integer\<close>
  "py_str i = (if i < 0 then CHR ''-'' # nat_digits (nat (- i)) else nat_digits (nat i))"

fun join_space :: "string list \<Rightarrow> string" where
  \<comment> \<open>\<open>' '.join(tokens)\<close>\<close>
  "join_space [] = []"
| "join_space [t] = t"
| "join_space (t # u # ts) = t @ '' '' @ join_space (u # ts)"

function sub_digit_runs :: "string \<Rightarrow> string" where
  \<comment> \<open>\<open>re.sub(r'\\d+', ' ', text)\<close>: every maximal run of digits becomes one space\<close>
  "sub_digit_runs [] = []"
| "sub_digit_runs (c # cs) =
     (if is_digit c then CHR '' '' # sub_digit_runs (dropWhile is_digit cs)
      else c # sub_digit_runs cs)"
  by pat_completeness auto
termination
  by (relation "measure length") (auto simp: length_dropWhile_le less_Suc_eq_le)

definition sub_special :: "string \<Rightarrow> string" where
  \<comment> \<open>\<open>re.sub(r'[^\\w\\s]', ' ', text)\<close>\<close>
  "sub_special s = map (\<lambda>c. if is_word_char c \<or> is_space_char c then c else CHR '' '') s"

function word_runs :: "string \<Rightarrow> string list" where
  \<comment> \<open>the maximal runs of word characters, left to right\<close>
  "word_runs [] = []"
| "word_runs (c # cs) =
     (if is_word_char c
      then (c # takeWhile is_word_char cs) # word_runs (dropWhile is_word_char cs)
      else word_runs cs)"
  by pat_completeness auto
termination
  by (relation "measure length") (auto simp: length_dropWhile_le less_Suc_eq_le)

fun word_search :: "string \<Rightarrow> bool \<Rightarrow> string \<Rightarrow> bool" where
  \<comment> \<open>\<open>re.search(r'\\b' + k + r'\\b', text)\<close> for a keyword \<open>k\<close> that starts and ends with a
      word character; the flag says whether the character before the text is a word character\<close>
  "word_search k prev [] = False"
| "word_search k prev (c # cs) =
     ((\<not> prev \<and> take (length k) (c # cs) = k \<and>
       (case drop (length k) (c # cs) of [] \<Rightarrow> True | d # _ \<Rightarrow> \<not> is_word_char d))
      \<or> word_search k (is_word_char c) cs)"

section \<open>The catalog and the filter set\<close>

record movie =
  movie_id :: int
  title :: string
  overview :: string
  poster_path :: string
  release_date :: "string option"
  first_air_date :: "string option"
  genres :: "string list"
  language :: "string option"
  content_type :: "string option"
  document :: string

text \<open>
  A filter value for the key \<open>language\<close> is a single code or a list of codes:
  \<open>extract_keywords_from_query\<close> stores a list for the regions \<open>south indian\<close> and
  \<open>indian\<close>.
\<close>

datatype lang_filter = Code string | Codes "string list"

record filters =
  flt_year :: "int option"
  flt_genre :: "string option"
  flt_language :: "lang_filter option"
  flt_content_type :: "string option"
  flt_time_period :: "(int \<times> int) option"
  flt_other_keys :: "string list"

definition no_filters :: filters where
  \<comment> \<open>the empty dictionary\<close>
  "no_filters =
     \<lparr>flt_year = None, flt_genre = None, flt_language = None, flt_content_type = None,
      flt_time_period = None, flt_other_keys = []\<rparr>"

definition filters_empty :: "filters \<Rightarrow> bool" where
  \<comment> \<open>the dictionary has no key, so that \<open>if filters:\<close> is false\<close>
  "filters_empty f =
     (flt_year f = None \<and> flt_genre f = None \<and> flt_language f = None \<and>
      flt_content_type f = None \<and> flt_time_period f = None \<and> flt_other_keys f = [])"

definition truthy :: "string option \<Rightarrow> bool" where
  \<comment> \<open>\<open>if movie.get(key):\<close> on a string field\<close>
  "truthy so = (case so of None \<Rightarrow> False | Some s \<Rightarrow> s \<noteq> [])"

definition effective_date :: "movie \<Rightarrow> string option" where
  \<comment> \<open>the date the \<open>if release_date / elif first_air_date\<close> chain reads\<close>
  "effective_date m =
     (if truthy (release_date m) then release_date m
      else if truthy (first_air_date m) then first_air_date m
      else None)"

definition year_str :: "movie \<Rightarrow> string" where
  "year_str m = (case effective_date m of None \<Rightarrow> [] | Some d \<Rightarrow> take 4 d)"

definition parsed_year :: "movie \<Rightarrow> int option" where
  \<comment> \<open>\<open>None\<close>: no date, or \<open>int\<close> raised \<open>ValueError\<close> on its first four characters\<close>
  "parsed_year m = (case effective_date m of None \<Rightarrow> None | Some d \<Rightarrow> py_int (take 4 d))"

definition period_year :: "movie \<Rightarrow> int" where
  \<comment> \<open>the variable \<open>year\<close> of the time period filter, which starts at 0\<close>
  "period_year m = (case parsed_year m of None \<Rightarrow> 0 | Some y \<Rightarrow> y)"

definition year_ok :: "movie \<Rightarrow> int \<Rightarrow> bool" where
  "year_ok m y = (year_str m = py_str y)"

definition genre_ok :: "movie \<Rightarrow> string \<Rightarrow> bool" where
  "genre_ok m g = list_ex (\<lambda>x. str_lower x = str_lower g) (genres m)"

fun language_ok :: "string option \<Rightarrow> lang_filter \<Rightarrow> bool" where
  \<comment> \<open>\<open>not (movie.get('language') != filters['language'])\<close>: a string never equals a list\<close>
  "language_ok (Some s) (Code c) = (s = c)"
| "language_ok None (Code c) = False"
| "language_ok l (Codes cs) = False"

definition content_type_ok :: "movie \<Rightarrow> string \<Rightarrow> bool" where
  "content_type_ok m c = (content_type m = Some c)"

definition time_period_ok :: "movie \<Rightarrow> int \<times> int \<Rightarrow> bool" where
  "time_period_ok m p = (fst p \<le> period_year m \<and> period_year m \<le> snd p)"

definition matches :: "movie \<Rightarrow> filters \<Rightarrow> bool" where
  \<comment> \<open>the flag \<open>include\<close> at the end of one iteration of \<open>_apply_filters\<close>\<close>
  "matches m f =
     ((case flt_year f of None \<Rightarrow> True | Some y \<Rightarrow> year_ok m y) \<and>
      (case flt_genre f of None \<Rightarrow> True | Some g \<Rightarrow> genre_ok m g) \<and>
      (case flt_language f of None \<Rightarrow> True | Some l \<Rightarrow> language_ok (language m) l) \<and>
      (case flt_content_type f of None \<Rightarrow> True | Some c \<Rightarrow> content_type_ok m c) \<and>
      (case flt_time_period f of None \<Rightarrow> True | Some p \<Rightarrow> time_period_ok m p))"

definition apply_filters :: "movie list \<Rightarrow> filters \<Rightarrow> nat list" where
  "apply_filters ms f = filter (\<lambda>i. matches (ms ! i) f) [0..<length ms]"

section \<open>The document normalizer\<close>

text \<open>
  \<open>_preprocess_text\<close> calls NLTK for the tokenizer, the English stop word list and the
  WordNet lemmatizer. They are library data outside the repository, so the model takes
  them as a parameter.
\<close>

record nltk =
  word_tokenize :: "string \<Rightarrow> string list"
  stop_words :: "string list"
  lemmatize :: "string \<Rightarrow> string"

definition preprocess_text :: "nltk \<Rightarrow> string \<Rightarrow> string" where
  "preprocess_text nl text =
     (if text = [] then []
      else
        let text1 = str_lower text;
            text2 = sub_special text1;
            text3 = sub_digit_runs text2;
            tokens = word_tokenize nl text3;
            tokens1 = filter (\<lambda>token. token \<notin> set (stop_words nl)) tokens;
            tokens2 = map (lemmatize nl) tokens1
        in join_space tokens2)"

section \<open>The similarity index\<close>

text \<open>
  The recommender after \<open>__init__\<close>: the catalog and the fitted vectorizer. The rows of
  \<open>tfidf_matrix\<close> are computed from the catalog by \<open>_prepare_tfidf\<close> and the catalog is
  not changed afterwards, so row \<open>i\<close> belongs to entry \<open>i\<close>.
\<close>

record recommender =
  movies :: "movie list"
  vocabulary :: "string list"
  idf :: "real list"

definition sk_tokens :: "string \<Rightarrow> string list" where
  \<comment> \<open>Modelled from the spec: the analyzer of the vectorizer (scikit-learn's default:
      lower case, tokens of two or more word characters).\<close>
  "sk_tokens s = filter (\<lambda>t. 2 \<le> length t) (word_runs (str_lower s))"

definition l2_normalize :: "real list \<Rightarrow> real list" where
  \<comment> \<open>Modelled from the spec: L2 normalization of one vector; a zero vector stays as it is.\<close>
  "l2_normalize v =
     (let nrm = sqrt (sum_list (map (\<lambda>x. x * x) v))
      in if nrm = 0 then v else map (\<lambda>x. x / nrm) v)"

definition transform :: "recommender \<Rightarrow> string \<Rightarrow> real list" where
  \<comment> \<open>Modelled from the spec: \<open>vectorizer.transform\<close>, term frequency times inverse document
      frequency over the vocabulary, L2-normalized; terms outside the vocabulary are ignored.\<close>
  "transform r text =
     l2_normalize
       (map (\<lambda>(t, w). real (count_list (sk_tokens text) t) * w) (zip (vocabulary r) (idf r)))"

definition dot :: "real list \<Rightarrow> real list \<Rightarrow> real" where
  "dot u v = sum_list (map (\<lambda>(x, y). x * y) (zip u v))"

definition cosine_similarity :: "real list \<Rightarrow> real list list \<Rightarrow> real list" where
  \<comment> \<open>Modelled from the spec: cosine similarity of the query vector with every row,
      flattened to one score per row.\<close>
  "cosine_similarity q rows = map (\<lambda>row. dot (l2_normalize q) (l2_normalize row)) rows"

definition tfidf_matrix :: "nltk \<Rightarrow> recommender \<Rightarrow> real list list" where
  \<comment> \<open>\<open>_prepare_tfidf\<close>: one row per catalog entry, in catalog order\<close>
  "tfidf_matrix nl r = map (\<lambda>m. transform r (preprocess_text nl (document m))) (movies r)"

definition query_vec :: "nltk \<Rightarrow> recommender \<Rightarrow> string \<Rightarrow> real list" where
  "query_vec nl r query = transform r (preprocess_text nl query)"

definition cosine_similarities :: "nltk \<Rightarrow> recommender \<Rightarrow> string \<Rightarrow> real list" where
  "cosine_similarities nl r query = cosine_similarity (query_vec nl r query) (tfidf_matrix nl r)"

section \<open>The ranking engine\<close>

definition mask_scores :: "nat list \<Rightarrow> real list \<Rightarrow> real list" where
  \<comment> \<open>\<open>mask = ones; mask[filtered_indices] = False; cosine_similarities[mask] = 0\<close>\<close>
  "mask_scores keep xs = map (\<lambda>i. if i \<in> set keep then xs ! i else 0) [0..<length xs]"

definition filtered_scores :: "movie list \<Rightarrow> real list \<Rightarrow> filters option \<Rightarrow> real list" where
  \<comment> \<open>the block \<open>if filters: ... if filtered_indices: ...\<close>; \<open>None\<close> and the empty
      dictionary are both false\<close>
  "filtered_scores ms xs fo =
     (case fo of
        None \<Rightarrow> xs
      | Some f \<Rightarrow>
          if filters_empty f then xs
          else (let filtered_indices = apply_filters ms f
                in if filtered_indices \<noteq> [] then mask_scores filtered_indices xs else xs))"

text \<open>
  \<open>argsort\<close> is NumPy's. It returns a permutation of the indices along which the scores
  are ascending; with the default sorting routine, which is not stable, the order of indices
  with equal scores is not specified. The model takes that order as a parameter: the
  library's choice is a list of indices \<open>tie_order np xs\<close>, completed to a permutation of
  \<open>0, ..., length xs - 1\<close> and then sorted by score without moving equal scores. Every
  permutation along which the scores are ascending is obtained from some \<open>tie_order\<close>.
\<close>

record numpy =
  tie_order :: "real list \<Rightarrow> nat list"

definition index_perm :: "nat \<Rightarrow> nat list \<Rightarrow> nat list" where
  \<comment> \<open>the indices below \<open>k\<close> in the order of the candidate list, those it lacks at the end\<close>
  "index_perm k cand =
     remdups (filter (\<lambda>i. i < k) cand) @ filter (\<lambda>i. i \<notin> set cand) [0..<k]"

definition argsort :: "numpy \<Rightarrow> real list \<Rightarrow> nat list" where
  \<comment> \<open>\<open>a.argsort()\<close>\<close>
  "argsort np xs = sort_key (\<lambda>i. xs ! i) (index_perm (length xs) (tie_order np xs))"

definition slice_from :: "int \<Rightarrow> 'a list \<Rightarrow> 'a list" where
  \<comment> \<open>\<open>a[k:]\<close>: a negative \<open>k\<close> counts from the end, and both ends are clipped\<close>
  "slice_from k xs =
     (if k < 0 then drop (nat (int (length xs) + k)) xs else drop (nat k) xs)"

definition top_indices :: "numpy \<Rightarrow> real list \<Rightarrow> int \<Rightarrow> nat list" where
  \<comment> \<open>\<open>cosine_similarities.argsort()[-n:][::-1]\<close>\<close>
  "top_indices np xs n = rev (slice_from (- n) (argsort np xs))"

definition recommended_indices :: "numpy \<Rightarrow> real list \<Rightarrow> int \<Rightarrow> nat list" where
  \<comment> \<open>the indices for which the loop appends a recommendation, in order\<close>
  "recommended_indices np xs n = filter (\<lambda>idx. xs ! idx > 0) (top_indices np xs n)"

record recommendation =
  rec_id :: int
  rec_title :: string
  rec_overview :: string
  rec_poster_path :: string
  rec_release_date :: string
  similarity_score :: real
  rec_content_type :: string

definition make_recommendation :: "movie \<Rightarrow> real \<Rightarrow> recommendation" where
  "make_recommendation m s =
     \<lparr>rec_id = movie_id m, rec_title = title m, rec_overview = overview m,
      rec_poster_path = poster_path m,
      rec_release_date =
        (case release_date m of
           Some d \<Rightarrow> d
         | None \<Rightarrow> (case first_air_date m of Some d \<Rightarrow> d | None \<Rightarrow> [])),
      similarity_score = s,
      rec_content_type = (case content_type m of Some c \<Rightarrow> c | None \<Rightarrow> ''movie'')\<rparr>"

definition final_scores :: "nltk \<Rightarrow> recommender \<Rightarrow> string \<Rightarrow> filters option \<Rightarrow> real list" where
  \<comment> \<open>\<open>cosine_similarities\<close> at the point where the top N are taken\<close>
  "final_scores nl r query fo = filtered_scores (movies r) (cosine_similarities nl r query) fo"

definition selected_indices ::
  "numpy \<Rightarrow> nltk \<Rightarrow> recommender \<Rightarrow> string \<Rightarrow> int \<Rightarrow> filters option \<Rightarrow> nat list" where
  \<comment> \<open>the catalog indices of the entries that \<open>recommend_movies\<close> returns, in order\<close>
  "selected_indices np nl r query n fo = recommended_indices np (final_scores nl r query fo) n"

definition recommend_movies ::
  "numpy \<Rightarrow> nltk \<Rightarrow> recommender \<Rightarrow> string \<Rightarrow> int \<Rightarrow> filters option \<Rightarrow> recommendation list" where
  "recommend_movies np nl r query n fo =
     map (\<lambda>idx. make_recommendation (movies r ! idx) (final_scores nl r query fo ! idx))
       (selected_indices np nl r query n fo)"

section \<open>The query interpreter: region and language\<close>

definition region_keywords :: "(string \<times> lang_filter) list" where
  "region_keywords =
     [(''hollywood'', Code ''en''),
      (''bollywood'', Code ''hi''),
      (''hindi'', Code ''hi''),
      (''tamil'', Code ''ta''),
      (''telugu'', Code ''te''),
      (''malayalam'', Code ''ml''),
      (''kannada'', Code ''kn''),
      (''south indian'', Codes [''ta'', ''te'', ''ml'', ''kn'']),
      (''indian'', Codes [''hi'', ''ta'', ''te'', ''ml'', ''kn''])]"

definition extract_language :: "string \<Rightarrow> lang_filter option" where
  \<comment> \<open>the region pass of \<open>extract_keywords_from_query\<close>: the first keyword of the table
      found as a whole word in the lower-cased query sets \<open>filters['language']\<close>\<close>
  "extract_language query =
     map_option snd (find (\<lambda>(region, l). word_search region False (str_lower query)) region_keywords)"

section \<open>A small catalog for concrete evaluation\<close>

definition ex_numpy :: numpy where
  \<comment> \<open>a sorting routine that leaves equal scores in index order\<close>
  "ex_numpy = \<lparr>tie_order = (\<lambda>xs. [])\<rparr>"

definition ex_nltk :: nltk where
  "ex_nltk = \<lparr>word_tokenize = word_runs, stop_words = [''the'', ''a''], lemmatize = (\<lambda>t. t)\<rparr>"

definition ex_movie :: "int \<Rightarrow> string \<Rightarrow> string \<Rightarrow> movie" where
  "ex_movie i l d =
     \<lparr>movie_id = i, title = ''T'', overview = [], poster_path = [],
      release_date = Some ''2015-03-01'', first_air_date = None, genres = [''Action''],
      language = Some l, content_type = Some ''movie'', document = d\<rparr>"

definition ex_undated :: movie where
  "ex_undated =
     \<lparr>movie_id = 7, title = ''U'', overview = [], poster_path = [],
      release_date = Some [], first_air_date = None, genres = [],
      language = Some ''en'', content_type = Some ''movie'', document = ''hero''\<rparr>"

definition ex_one :: recommender where
  "ex_one = \<lparr>movies = [ex_movie 1 ''en'' ''hero''], vocabulary = [''hero''], idf = [1]\<rparr>"

definition ex_tie :: recommender where
  "ex_tie =
     \<lparr>movies = [ex_movie 1 ''en'' ''hero'', ex_movie 2 ''ta'' ''hero''],
      vocabulary = [''hero''], idf = [1]\<rparr>"


definition lang_only :: "lang_filter \<Rightarrow> filters" where
  "lang_only l = no_filters\<lparr>flt_language := Some l\<rparr>"

definition period_only :: "int \<Rightarrow> int \<Rightarrow> filters" where
  "period_only s e = no_filters\<lparr>flt_time_period := Some (s, e)\<rparr>"

definition year_only :: "int \<Rightarrow> filters" where
  "year_only y = no_filters\<lparr>flt_year := Some y\<rparr>"

section \<open>Facts about the ranking pipeline\<close>

lemma length_mask_scores: "length (mask_scores keep xs) = length xs"
  by (simp add: mask_scores_def)

lemma nth_mask_scores:
  "i < length xs \<Longrightarrow> mask_scores keep xs ! i = (if i \<in> set keep then xs ! i else 0)"
  by (simp add: mask_scores_def)


lemma length_cosine_similarities: "length (cosine_similarities nl r q) = length (movies r)"
  by (simp add: cosine_similarities_def cosine_similarity_def tfidf_matrix_def)


lemma set_index_perm: "set (index_perm k cand) = {0..<k}"
  by (auto simp: index_perm_def)

lemma distinct_index_perm: "distinct (index_perm k cand)"
  by (auto simp: index_perm_def)

lemma set_argsort: "set (argsort np xs) = {0..<length xs}"
  by (simp add: argsort_def set_index_perm)

lemma distinct_argsort: "distinct (argsort np xs)"
  by (simp add: argsort_def distinct_index_perm)

lemma length_argsort: "length (argsort np xs) = length xs"
  using distinct_card [OF distinct_argsort, of np xs] by (simp add: set_argsort)

lemma ascending_argsort: "sorted_wrt (\<lambda>i j. xs ! i \<le> xs ! j) (argsort np xs)"
proof -
  have "sorted (map (\<lambda>i. xs ! i) (argsort np xs))" by (simp add: argsort_def)
  then show ?thesis by (simp add: sorted_map)
qed

lemma slice_from_drop: "\<exists>d. slice_from k xs = drop d xs"
  by (auto simp: slice_from_def)

lemma length_slice_last: "1 \<le> n \<Longrightarrow> int (length (slice_from (- n) xs)) \<le> n"
  by (simp add: slice_from_def)

lemma set_top_indices: "set (top_indices np xs n) \<subseteq> {0..<length xs}"
proof -
  obtain d where "slice_from (- n) (argsort np xs) = drop d (argsort np xs)"
    using slice_from_drop by blast
  then have "set (top_indices np xs n) \<subseteq> set (argsort np xs)"
    by (simp add: top_indices_def set_drop_subset)
  then show ?thesis by (simp add: set_argsort)
qed

lemma set_recommended_indices:
  "idx \<in> set (recommended_indices np xs n) \<Longrightarrow> idx < length xs \<and> 0 < xs ! idx"
  using set_top_indices [of np xs n] by (auto simp: recommended_indices_def)

lemma top_indices_desc: "sorted_wrt (\<lambda>i j. xs ! j \<le> xs ! i) (top_indices np xs n)"
proof -
  obtain d where d: "slice_from (- n) (argsort np xs) = drop d (argsort np xs)"
    using slice_from_drop by blast
  have "sorted_wrt (\<lambda>i j. xs ! i \<le> xs ! j) (drop d (argsort np xs))"
    using ascending_argsort by (rule sorted_wrt_drop)
  then show ?thesis by (simp add: top_indices_def d sorted_wrt_rev)
qed






section \<open>Evaluation of the small catalog\<close>

lemmas char_class_defs =
  str_lower_def lower_char_def ascii_upper_def ascii_lower_def ascii_digits_def
  is_digit_def is_word_char_def is_space_char_def sub_special_def

lemmas similarity_defs =
  cosine_similarities_def cosine_similarity_def query_vec_def tfidf_matrix_def transform_def
  preprocess_text_def sk_tokens_def l2_normalize_def dot_def Let_def

lemmas ranking_defs =
  final_scores_def filtered_scores_def selected_indices_def recommended_indices_def
  top_indices_def slice_from_def argsort_def index_perm_def ex_numpy_def mask_scores_def
  apply_filters_def

lemmas matches_defs =
  matches_def year_ok_def genre_ok_def content_type_ok_def time_period_ok_def
  period_year_def parsed_year_def year_str_def effective_date_def truthy_def
  filters_empty_def no_filters_def lang_only_def


lemma ex_one_scores: "cosine_similarities ex_nltk ex_one ''hero'' = [1]"
  by (simp add: similarity_defs char_class_defs ex_one_def ex_movie_def ex_nltk_def)

lemma ex_tie_scores: "cosine_similarities ex_nltk ex_tie ''hero'' = [1, 1]"
  by (simp add: similarity_defs char_class_defs ex_tie_def ex_movie_def ex_nltk_def)




lemma ex_one_movies: "movies ex_one = [ex_movie 1 ''en'' ''hero'']"
  by (simp add: ex_one_def)

lemma ex_tie_movies: "movies ex_tie = [ex_movie 1 ''en'' ''hero'', ex_movie 2 ''ta'' ''hero'']"
  by (simp add: ex_tie_def)

lemma ex_movie_lang: "matches (ex_movie i l d) (lang_only (Code c)) = (l = c)"
  by (simp add: matches_defs ex_movie_def)

section \<open>Filters as a gate\<close>

text \<open>
  C1 (amended). For a non-empty filter set that at least one catalog entry matches, every
  entry that \<open>recommend_movies\<close> returns matches the filter set, and the score of every
  entry that does not match is zero when the top N are taken.
\<close>

theorem filter_gate:
  assumes "\<not> filters_empty f" and "apply_filters (movies r) f \<noteq> []"
  shows "(\<forall>idx\<in>set (selected_indices np nl r query n (Some f)).
            idx < length (movies r) \<and> matches (movies r ! idx) f) \<and>
         (\<forall>i<length (movies r). \<not> matches (movies r ! i) f \<longrightarrow>
            final_scores nl r query (Some f) ! i = 0)"
proof -
  let ?cs = "cosine_similarities nl r query"
  let ?keep = "apply_filters (movies r) f"
  have fin: "final_scores nl r query (Some f) = mask_scores ?keep ?cs"
    using assms by (simp add: final_scores_def filtered_scores_def)
  have len: "length ?cs = length (movies r)" by (rule length_cosine_similarities)
  have keep: "i \<in> set ?keep \<longleftrightarrow> i < length (movies r) \<and> matches (movies r ! i) f" for i
    by (auto simp: apply_filters_def)
  have zero: "mask_scores ?keep ?cs ! i = 0"
    if "i < length (movies r)" "\<not> matches (movies r ! i) f" for i
    using that len keep by (simp add: nth_mask_scores)
  have sel: "idx < length (movies r) \<and> matches (movies r ! idx) f"
    if "idx \<in> set (selected_indices np nl r query n (Some f))" for idx
  proof -
    from that have "idx < length (mask_scores ?keep ?cs)" and pos: "0 < mask_scores ?keep ?cs ! idx"
      using set_recommended_indices by (simp_all add: selected_indices_def fin)
    then have lt: "idx < length (movies r)" by (simp add: length_mask_scores len)
    with pos zero [of idx] show ?thesis by auto
  qed
  show ?thesis using sel zero by (simp add: fin)
qed

theorem filter_gate_witness:
  "\<not> filters_empty (lang_only (Code ''ta'')) \<and>
   apply_filters (movies ex_tie) (lang_only (Code ''ta'')) \<noteq> [] \<and>
   selected_indices ex_numpy ex_nltk ex_tie ''hero'' 2 (Some (lang_only (Code ''ta''))) = [1] \<and>
   matches (movies ex_tie ! 1) (lang_only (Code ''ta'')) \<and>
   final_scores ex_nltk ex_tie ''hero'' (Some (lang_only (Code ''ta''))) ! 0 = 0"
  using filter_gate [where f = "lang_only (Code ''ta'')" and r = ex_tie and np = ex_numpy
      and nl = ex_nltk and query = "''hero''" and n = 2]
  by (simp add: ranking_defs ex_tie_scores ex_tie_movies ex_movie_lang)
    (simp add: matches_defs)

theorem filter_gate_counterexample:
  "\<not> filters_empty (lang_only (Code ''hi'')) \<and>
   selected_indices ex_numpy ex_nltk ex_one ''hero'' 1 (Some (lang_only (Code ''hi''))) = [0] \<and>
   \<not> matches (movies ex_one ! 0) (lang_only (Code ''hi''))"
  by (simp add: ranking_defs ex_one_scores ex_one_movies ex_movie_lang)
    (simp add: matches_defs)

section \<open>Filters that nothing matches\<close>

lemma apply_filters_none:
  "(\<forall>m\<in>set ms. \<not> matches m f) \<Longrightarrow> apply_filters ms f = []"
  by (simp add: apply_filters_def filter_empty_conv)

lemma final_scores_unfiltered:
  "filters_empty f \<or> apply_filters (movies r) f = [] \<Longrightarrow>
   final_scores nl r query (Some f) = cosine_similarities nl r query"
  by (auto simp: final_scores_def filtered_scores_def)

lemma final_scores_None: "final_scores nl r query None = cosine_similarities nl r query"
  by (simp add: final_scores_def filtered_scores_def)

lemma filters_empty_no_filters: "filters_empty no_filters"
  by (simp add: filters_empty_def no_filters_def)

text \<open>
  C2 (amended). When no catalog entry matches the filter set, \<open>recommend_movies\<close> returns
  what the call with the empty filter set returns: the result is empty only when that
  unfiltered result is.
\<close>

theorem no_match_unfiltered:
  assumes "\<forall>m\<in>set (movies r). \<not> matches m f"
  shows "recommend_movies np nl r query n (Some f) =
         recommend_movies np nl r query n (Some no_filters)"
proof -
  have "apply_filters (movies r) f = []" using assms by (rule apply_filters_none)
  then have "final_scores nl r query (Some f) = final_scores nl r query (Some no_filters)"
    by (simp add: final_scores_unfiltered filters_empty_no_filters)
  then show ?thesis by (simp add: recommend_movies_def selected_indices_def)
qed

theorem no_match_unfiltered_witness:
  "set (movies ex_one) = {ex_movie 1 ''en'' ''hero''} \<and>
   matches (ex_movie 1 ''en'' ''hero'') (lang_only (Code ''hi'')) = False \<and>
   recommend_movies ex_numpy ex_nltk ex_one ''hero'' 1 (Some (lang_only (Code ''hi''))) =
   recommend_movies ex_numpy ex_nltk ex_one ''hero'' 1 (Some no_filters)"
  using no_match_unfiltered [where r = ex_one and f = "lang_only (Code ''hi'')"
      and np = ex_numpy and nl = ex_nltk and query = "''hero''" and n = 1]
  by (simp add: ex_one_movies ex_movie_lang)

theorem no_match_counterexample:
  "movies ex_one = [ex_movie 1 ''en'' ''hero''] \<and>
   \<not> matches (ex_movie 1 ''en'' ''hero'') (lang_only (Code ''hi'')) \<and>
   map rec_id
     (recommend_movies ex_numpy ex_nltk ex_one ''hero'' 1 (Some (lang_only (Code ''hi'')))) = [1]"
  by (simp add: recommend_movies_def ranking_defs ex_one_scores ex_one_movies ex_movie_lang
      make_recommendation_def)
    (simp add: matches_defs ex_movie_def)

text \<open>
  C3. When the index list computed by \<open>_apply_filters\<close> is empty, the masking step is
  skipped and \<open>recommend_movies(q, n, f)\<close> returns exactly the ordered results of
  \<open>recommend_movies(q, n, None)\<close>.
\<close>

theorem unsatisfiable_filters_ignored:
  assumes "apply_filters (movies r) f = []"
  shows "recommend_movies np nl r query n (Some f) = recommend_movies np nl r query n None"
proof -
  have "final_scores nl r query (Some f) = final_scores nl r query None"
    using assms by (simp add: final_scores_unfiltered final_scores_None)
  then show ?thesis by (simp add: recommend_movies_def selected_indices_def)
qed

theorem unsatisfiable_filters_ignored_witness:
  "apply_filters (movies ex_tie) (lang_only (Codes [''ta'', ''te'', ''ml'', ''kn''])) = [] \<and>
   recommend_movies ex_numpy ex_nltk ex_tie ''hero'' 2
     (Some (lang_only (Codes [''ta'', ''te'', ''ml'', ''kn'']))) =
   recommend_movies ex_numpy ex_nltk ex_tie ''hero'' 2 None"
  using unsatisfiable_filters_ignored
    [where r = ex_tie and f = "lang_only (Codes [''ta'', ''te'', ''ml'', ''kn''])"
      and np = ex_numpy and nl = ex_nltk and query = "''hero''" and n = 2]
  by (simp add: apply_filters_def ex_tie_movies matches_defs ex_movie_def)

section \<open>The number of results\<close>

lemma top_indices_nonpositive:
  "n \<le> 0 \<Longrightarrow> top_indices np xs n = rev (drop (nat (- n)) (argsort np xs))"
  by (simp add: top_indices_def slice_from_def)

lemma ex_tie_all_selected:
  assumes "n \<le> 0"
  shows "selected_indices np ex_nltk ex_tie ''hero'' n None =
         rev (drop (nat (- n)) (argsort np [1, 1]))"
proof -
  have "0 < [1, 1 :: real] ! idx" if "idx \<in> set (top_indices np [1, 1] n)" for idx
  proof -
    from that have "idx < 2" using set_top_indices [of np "[1, 1]" n] by auto
    then have "idx = 0 \<or> idx = 1" by auto
    then show ?thesis by auto
  qed
  then have "recommended_indices np [1, 1] n = top_indices np [1, 1] n"
    by (simp add: recommended_indices_def)
  then show ?thesis
    using assms
    by (simp add: selected_indices_def final_scores_None ex_tie_scores top_indices_nonpositive)
qed

text \<open>
  C5 (the code at a failing input). With \<open>n = 0\<close> the slice \<open>[-n:]\<close> is the whole
  array, so every entry with a positive score is returned; with \<open>n = -1\<close> all but the
  lowest one are. This holds whatever order the sort gives to equal scores; where equal
  scores stay in index order the results are the entries 2, 1 and the entry 2.
\<close>

theorem zero_n_returns_all:
  "map rec_id (recommend_movies ex_numpy ex_nltk ex_tie ''hero'' 0 None) = [2, 1] \<and>
   map rec_id (recommend_movies ex_numpy ex_nltk ex_tie ''hero'' (- 1) None) = [2] \<and>
   length (recommend_movies np ex_nltk ex_tie ''hero'' 0 None) = 2 \<and>
   length (recommend_movies np ex_nltk ex_tie ''hero'' (- 1) None) = 1"
proof -
  have "map rec_id (recommend_movies ex_numpy ex_nltk ex_tie ''hero'' 0 None) = [2, 1] \<and>
        map rec_id (recommend_movies ex_numpy ex_nltk ex_tie ''hero'' (- 1) None) = [2]"
    by (simp add: recommend_movies_def ranking_defs ex_tie_scores ex_tie_movies
        make_recommendation_def ex_movie_def)
  moreover have "length (recommend_movies np ex_nltk ex_tie ''hero'' 0 None) = 2"
    by (simp add: recommend_movies_def ex_tie_all_selected length_argsort)
  moreover have "length (recommend_movies np ex_nltk ex_tie ''hero'' (- 1) None) = 1"
    by (simp add: recommend_movies_def ex_tie_all_selected length_argsort)
  ultimately show ?thesis by simp
qed

section \<open>Equal scores\<close>




section \<open>The top N contract\<close>

lemma length_recommend_movies:
  "1 \<le> n \<Longrightarrow> int (length (recommend_movies np nl r query n fo)) \<le> n"
proof -
  assume n: "1 \<le> n"
  let ?s = "final_scores nl r query fo"
  have "length (recommended_indices np ?s n) \<le> length (slice_from (- n) (argsort np ?s))"
    by (simp add: recommended_indices_def top_indices_def) (metis length_filter_le length_rev)
  also have "int \<dots> \<le> n" using n by (rule length_slice_last)
  finally show ?thesis by (simp add: recommend_movies_def selected_indices_def)
qed

lemma scores_recommend_movies:
  "map similarity_score (recommend_movies np nl r query n fo) =
   map (\<lambda>idx. final_scores nl r query fo ! idx) (selected_indices np nl r query n fo)"
  by (simp add: recommend_movies_def make_recommendation_def comp_def)

lemma scores_non_increasing:
  "sorted_wrt (\<lambda>a b. b \<le> a) (map similarity_score (recommend_movies np nl r query n fo))"
proof -
  let ?s = "final_scores nl r query fo"
  have "sorted_wrt (\<lambda>i j. ?s ! j \<le> ?s ! i) (recommended_indices np ?s n)"
    unfolding recommended_indices_def by (rule sorted_wrt_filter) (rule top_indices_desc)
  then show ?thesis
    by (simp add: scores_recommend_movies sorted_wrt_map selected_indices_def)
qed

text \<open>
  C7 (amended). The call with the empty filter set returns at most \<open>n\<close> results for every
  \<open>n \<ge> 1\<close>, and for every \<open>n\<close> the similarity scores of the returned sequence are
  non-increasing.
\<close>

theorem top_n_contract:
  "(1 \<le> n \<longrightarrow> int (length (recommend_movies np nl r query n (Some no_filters))) \<le> n) \<and>
   sorted_wrt (\<lambda>a b. b \<le> a)
     (map similarity_score (recommend_movies np nl r query n (Some no_filters)))"
  by (simp add: length_recommend_movies scores_non_increasing)

theorem top_n_contract_witness:
  "(1::int) \<le> 1 \<and>
   int (length (recommend_movies ex_numpy ex_nltk ex_tie ''hero'' 1 (Some no_filters))) \<le> 1 \<and>
   map similarity_score (recommend_movies ex_numpy ex_nltk ex_tie ''hero'' 2 (Some no_filters))
     = [1, 1]"
  using top_n_contract [where n = 1 and np = ex_numpy and nl = ex_nltk and r = ex_tie
      and query = "''hero''"]
  by (simp add: recommend_movies_def ranking_defs ex_tie_scores ex_tie_movies
      make_recommendation_def filters_empty_no_filters)

theorem top_n_counterexample:
  "\<not> int (length (recommend_movies ex_numpy ex_nltk ex_tie ''hero'' (- 1) (Some no_filters)))
      \<le> - 1 \<and>
   \<not> int (length (recommend_movies ex_numpy ex_nltk ex_tie ''hero'' 0 (Some no_filters))) \<le> 0"
  by (simp add: recommend_movies_def ranking_defs ex_tie_scores ex_tie_movies
      filters_empty_no_filters)

section \<open>Queries outside the vocabulary\<close>

lemma l2_normalize_zero: "\<forall>x\<in>set v. x = 0 \<Longrightarrow> l2_normalize v = v"
proof -
  assume z: "\<forall>x\<in>set v. x = 0"
  then have "map (\<lambda>x. x * x) v = map (\<lambda>x. 0) v" by simp
  then have "sum_list (map (\<lambda>x. x * x) v) = 0" by (simp only: sum_list_0)
  then show ?thesis by (simp add: l2_normalize_def)
qed

lemma dot_zero_left: "\<forall>x\<in>set u. x = 0 \<Longrightarrow> dot u v = 0"
proof -
  assume z: "\<forall>x\<in>set u. x = 0"
  have "\<forall>p\<in>set (zip u v). (case p of (x, y) \<Rightarrow> x * y) = 0"
    using z by (auto dest: set_zip_leftD)
  then have "map (\<lambda>(x, y). x * y) (zip u v) = map (\<lambda>p. 0) (zip u v)" by simp
  then show ?thesis by (simp only: dot_def sum_list_0)
qed

lemma transform_unknown:
  assumes "set (sk_tokens text) \<inter> set (vocabulary r) = {}"
  shows "\<forall>x\<in>set (transform r text). x = 0"
proof -
  let ?v = "map (\<lambda>(t, w). real (count_list (sk_tokens text) t) * w) (zip (vocabulary r) (idf r))"
  have "count_list (sk_tokens text) t = 0" if "t \<in> set (vocabulary r)" for t
    using that assms by (auto simp: count_list_0_iff)
  then have z: "\<forall>x\<in>set ?v. x = 0" by (auto dest: set_zip_leftD)
  then have "l2_normalize ?v = ?v" by (rule l2_normalize_zero)
  with z show ?thesis by (simp add: transform_def)
qed

lemma cosine_similarity_zero:
  assumes "\<forall>x\<in>set q. x = 0"
  shows "\<forall>s\<in>set (cosine_similarity q rows). s = 0"
proof -
  have "l2_normalize q = q" using assms by (rule l2_normalize_zero)
  then show ?thesis using assms by (auto simp: cosine_similarity_def dot_zero_left)
qed

lemma filtered_scores_zero:
  assumes "\<forall>s\<in>set xs. s = 0"
  shows "\<forall>s\<in>set (filtered_scores ms xs fo). s = 0"
proof -
  have "\<forall>s\<in>set (mask_scores keep xs). s = 0" for keep
    using assms by (auto simp: mask_scores_def)
  then show ?thesis using assms
    by (simp add: filtered_scores_def Let_def split: option.splits)
qed

lemma recommended_indices_zero:
  assumes "\<forall>s\<in>set xs. s = 0"
  shows "recommended_indices np xs n = []"
proof -
  have "\<not> 0 < xs ! idx" if "idx \<in> set (top_indices np xs n)" for idx
  proof -
    from that have "idx < length xs" using set_top_indices [of np xs n] by auto
    then have "xs ! idx = 0" using assms by simp
    then show ?thesis by simp
  qed
  then show ?thesis by (simp add: recommended_indices_def filter_empty_conv)
qed

text \<open>
  C9. A query whose normalization has no term of the vocabulary vectorizes to the zero
  vector, its cosine similarity with every catalog document is zero, and
  \<open>recommend_movies\<close> returns the empty sequence for every \<open>n\<close> and every filter set.
\<close>

theorem unknown_query_empty:
  assumes "set (sk_tokens (preprocess_text nl query)) \<inter> set (vocabulary r) = {}"
  shows "(\<forall>x\<in>set (query_vec nl r query). x = 0) \<and>
         (\<forall>s\<in>set (cosine_similarities nl r query). s = 0) \<and>
         recommend_movies np nl r query n fo = []"
proof -
  have q: "\<forall>x\<in>set (query_vec nl r query). x = 0"
    unfolding query_vec_def using assms by (rule transform_unknown)
  then have cs: "\<forall>s\<in>set (cosine_similarities nl r query). s = 0"
    unfolding cosine_similarities_def by (rule cosine_similarity_zero)
  then have "\<forall>s\<in>set (final_scores nl r query fo). s = 0"
    unfolding final_scores_def by (rule filtered_scores_zero)
  then have "selected_indices np nl r query n fo = []"
    unfolding selected_indices_def by (rule recommended_indices_zero)
  then show ?thesis using q cs by (simp add: recommend_movies_def)
qed

lemma ex_villain_tokens: "sk_tokens (preprocess_text ex_nltk ''villain'') = [''villain'']"
  by (simp add: preprocess_text_def sk_tokens_def Let_def char_class_defs ex_nltk_def)

theorem unknown_query_empty_witness:
  "set (sk_tokens (preprocess_text ex_nltk ''villain'')) \<inter> set (vocabulary ex_one) = {} \<and>
   cosine_similarities ex_nltk ex_one ''villain'' = [0] \<and>
   recommend_movies ex_numpy ex_nltk ex_one ''villain'' 5 None = []"
  using unknown_query_empty [where nl = ex_nltk and query = "''villain''" and r = ex_one
      and np = ex_numpy and n = 5 and fo = None]
    length_cosine_similarities [of ex_nltk ex_one "''villain''"]
  by (simp add: ex_villain_tokens ex_one_def length_Suc_conv) auto

section \<open>The time period filter without a year\<close>

text \<open>
  C10 (the code at a failing input). The time period filter starts from \<open>year = 0\<close> and
  keeps it when the entry has no date or \<open>int\<close> raises \<open>ValueError\<close>, so such an entry
  passes the range test of every period that contains 0, here \<open>[0, 2030]\<close>. The year
  filter of the same function rejects the same entries for the year 0.
\<close>

theorem undated_entry_in_period:
  "effective_date ex_undated = None \<and>
   parsed_year ex_undated = None \<and>
   matches ex_undated (period_only 0 2030) \<and>
   \<not> matches ex_undated (year_only 0) \<and>
   parsed_year (ex_undated\<lparr>release_date := Some ''TBA''\<rparr>) = None \<and>
   matches (ex_undated\<lparr>release_date := Some ''TBA''\<rparr>) (period_only 0 2030) \<and>
   \<not> matches (ex_undated\<lparr>release_date := Some ''TBA''\<rparr>) (year_only 0)"
  by code_simp

section \<open>A language filter that carries several codes\<close>

lemma ex_south_indian:
  "extract_language ''best south indian movies'' = Some (Codes [''ta'', ''te'', ''ml'', ''kn''])"
  by code_simp

text \<open>
  C4 (the code at a failing input). The query interpreter stores the list of codes
  \<open>ta, te, ml, kn\<close> for the region \<open>south indian\<close>; \<open>_apply_filters\<close> compares the entry's
  language with that list by \<open>!=\<close>, so an entry with language \<open>ta\<close> does not match it.
\<close>

theorem language_list_never_matches:
  "extract_language ''best south indian movies'' = Some (Codes [''ta'', ''te'', ''ml'', ''kn'']) \<and>
   language (ex_movie 2 ''ta'' ''hero'') = Some ''ta'' \<and>
   \<not> matches (ex_movie 2 ''ta'' ''hero'') (lang_only (Codes [''ta'', ''te'', ''ml'', ''kn'']))"
  by (simp add: ex_south_indian) (simp add: matches_defs ex_movie_def)


end
